theory Spec2Isabelle
  imports Main "HOL-Library.Sublist"
begin

section \<open>Data model\<close>

text \<open>
  An entity descriptor (\<^verbatim>\<open>EntityClassOrSchema\<close>) is a class or an entity schema object.
  The providers distinguish a class whose prototype is a \<^verbatim>\<open>Repository\<close> (a custom
  repository class) from every other descriptor, so the three shapes are kept apart.  The
  string is the identity of the descriptor: two descriptors are the same object exactly
  when they are equal.
\<close>

datatype entity =
    EntityClass string
  | RepositoryClass string
  | EntitySchema string

text \<open>\<^verbatim>\<open>entity instanceof Function\<close>\<close>

fun instanceofFunction :: "entity \<Rightarrow> bool" where
  "instanceofFunction (EntityClass _) = True"
| "instanceofFunction (RepositoryClass _) = True"
| "instanceofFunction (EntitySchema _) = False"

text \<open>\<^verbatim>\<open>entity.prototype instanceof Repository\<close>\<close>

fun prototypeInstanceofRepository :: "entity \<Rightarrow> bool" where
  "prototypeInstanceofRepository (RepositoryClass _) = True"
| "prototypeInstanceofRepository _ = False"

text \<open>A custom repository class: a class whose prototype is a \<^verbatim>\<open>Repository\<close>.\<close>

definition isCustomRepository :: "entity \<Rightarrow> bool" where
  "isCustomRepository entity =
     (instanceofFunction entity \<and> prototypeInstanceofRepository entity)"

datatype err = Err (message: string)

text \<open>
  \<^verbatim>\<open>MixedList<T>\<close>: an array, or an object whose values are the elements.  The keyed form
  is held as its entries in the order in which JavaScript enumerates the own properties of
  the object, which is the order \<^verbatim>\<open>Object.values\<close> follows.
\<close>

datatype 'a mixed_list = MixedArray "'a list" | MixedObject "(string \<times> 'a) list"

text \<open>\<^verbatim>\<open>TypeOrmModuleOptions\<close>; an optional field that is absent is \<open>None\<close>.\<close>

record typeorm_module_options =
  retryAttempts :: "int option"
  retryDelay :: "int option"
  toRetry :: "(err \<Rightarrow> bool) option"
  autoLoadEntities :: "bool option"
  keepDataSourceAlive :: "bool option"
  verboseRetryLog :: "bool option"
  name :: "string option"
  type :: "string option"
  entities :: "entity mixed_list option"

text \<open>The live connection object; \<open>ds_id\<close> is the identity of the instance.\<close>

record data_source =
  ds_id :: nat
  ds_type :: string
  isInitialized :: bool

text \<open>JavaScript truthiness of an optional boolean and of an optional string.\<close>

fun truthy :: "bool option \<Rightarrow> bool" where
  "truthy (Some b) = b"
| "truthy None = False"

fun truthy_string :: "string option \<Rightarrow> bool" where
  "truthy_string (Some s) = (s \<noteq> [])"
| "truthy_string None = False"

section \<open>Logical connection name\<close>

text \<open>
  Modelled from the spec: the constant \<^verbatim>\<open>DEFAULT_DATA_SOURCE_NAME\<close> of
  \<^verbatim>\<open>typeorm.constants\<close>, which is not among the sources.  The specification calls it a
  well-known constant and registers under the name \<^verbatim>\<open>"default"\<close>.
\<close>

definition DEFAULT_DATA_SOURCE_NAME :: string where
  "DEFAULT_DATA_SOURCE_NAME = ''default''"

text \<open>
  Modelled from the spec: \<^verbatim>\<open>getDataSourceName\<close> of \<^verbatim>\<open>common/typeorm.utils\<close>, which is
  not among the sources.  The logical name is the explicit \<open>name\<close> field, else it is derived
  deterministically from the full configuration; the derivation (a stable serialisation) is
  the parameter \<open>serialise\<close>.
\<close>

definition getDataSourceName ::
  "(typeorm_module_options \<Rightarrow> string) \<Rightarrow> typeorm_module_options \<Rightarrow> string" where
  "getDataSourceName serialise options =
     (case name options of Some n \<Rightarrow> n | None \<Rightarrow> serialise options)"

text \<open>
  The target of a feature registration: \<^verbatim>\<open>DataSource | DataSourceOptions | string\<close>.  A
  connection object is configuration-like and is represented by its options.
\<close>

datatype data_source_ref = RefString string | RefOptions typeorm_module_options

text \<open>
  Modelled from the spec: the key resolution of the entity registry.  A string is used
  directly; a configuration-like object gives its \<open>name\<close> field or, failing that, its stable
  serialisation, as the bootstrapper's own name resolution does.
\<close>

fun resolveKey ::
  "(typeorm_module_options \<Rightarrow> string) \<Rightarrow> data_source_ref \<Rightarrow> string" where
  "resolveKey serialise (RefString s) = s"
| "resolveKey serialise (RefOptions options) = getDataSourceName serialise options"

section \<open>Entity registry\<close>

text \<open>The process-wide table from logical connection names to ordered collections.\<close>

type_synonym storage = "string \<rightharpoonup> entity list"

text \<open>
  Modelled from the spec: the registration of one entity of \<^verbatim>\<open>EntitiesMetadataStorage\<close>
  (\<^verbatim>\<open>entities-metadata.storage\<close> is not among the sources).  The collection is ordered and
  holds no descriptor twice, so a descriptor already present is left where it is and a new
  one is appended.
\<close>

definition pushUnique :: "entity list \<Rightarrow> entity \<Rightarrow> entity list" where
  "pushUnique collection entity =
     (if entity \<in> set collection then collection else collection @ [entity])"

text \<open>
  Modelled from the spec: \<^verbatim>\<open>EntitiesMetadataStorage.getEntitiesByDataSource\<close>, the lookup
  of the registry, which is not among the sources.  It returns the collection stored under
  the key and the empty collection for a key that was never registered.
\<close>

definition getEntitiesByDataSource :: "storage \<Rightarrow> string \<Rightarrow> entity list" where
  "getEntitiesByDataSource st key = (case st key of None \<Rightarrow> [] | Some collection \<Rightarrow> collection)"

text \<open>
  Modelled from the spec: \<^verbatim>\<open>EntitiesMetadataStorage.addEntitiesByDataSource\<close>, the
  registration of the registry, which is not among the sources.  It appends the entities, in
  their order, to the collection stored under the resolved key; entries accumulate.
\<close>

definition addEntitiesByDataSource ::
  "(typeorm_module_options \<Rightarrow> string) \<Rightarrow> storage \<Rightarrow> data_source_ref \<Rightarrow> entity list \<Rightarrow> storage" where
  "addEntitiesByDataSource serialise st dataSource ents =
     (let key = resolveKey serialise dataSource
      in st(key \<mapsto> foldl pushUnique (getEntitiesByDataSource st key) ents))"

text \<open>A sequence of registrations, in the order in which they are made.\<close>

fun registerAll ::
  "(typeorm_module_options \<Rightarrow> string) \<Rightarrow> storage \<Rightarrow> (data_source_ref \<times> entity list) list \<Rightarrow> storage" where
  "registerAll serialise st [] = st"
| "registerAll serialise st ((dataSource, ents) # rest) =
     registerAll serialise (addEntitiesByDataSource serialise st dataSource ents) rest"

text \<open>
  The specification's words for the stored value: the registered lists concatenated in
  registration order, with duplicates removed by identity (the first occurrence stays).
\<close>

definition removeDuplicates :: "entity list \<Rightarrow> entity list" where
  "removeDuplicates xs = rev (remdups (rev xs))"

text \<open>
  The registered lists that resolve to one key, concatenated in registration order.
\<close>

definition registeredUnder ::
  "(typeorm_module_options \<Rightarrow> string) \<Rightarrow> string \<Rightarrow> (data_source_ref \<times> entity list) list \<Rightarrow> entity list" where
  "registeredUnder serialise key regs =
     concat (map snd (filter (\<lambda>reg. resolveKey serialise (fst reg) = key) regs))"

section \<open>The world the bootstrapper acts on\<close>

datatype log_entry =
    RetryWarning string "string option"
  | ErrorMessage string

fun isRetryWarning :: "log_entry \<Rightarrow> bool" where
  "isRetryWarning (RetryWarning _ _) = True"
| "isRetryWarning (ErrorMessage _) = False"

text \<open>
  Everything the code does beyond returning: the arguments of every invocation of the
  connection factory, the lines written to the logger, the delays waited and the
  connections on which \<^verbatim>\<open>close\<close> was called, each in order.
\<close>

record world =
  factory_calls :: "typeorm_module_options option list"
  logged :: "log_entry list"
  waited :: "int list"
  close_calls :: "data_source list"

definition initial_world :: world where
  "initial_world = \<lparr>factory_calls = [], logged = [], waited = [], close_calls = []\<rparr>"

text \<open>
  \<^verbatim>\<open>TypeOrmDataSourceFactory\<close>, \<^verbatim>\<open>(options?) => Promise<DataSource>\<close>.  The promise rejects
  (\<open>Inl\<close>) or resolves (\<open>Inr\<close>); the outcome may differ from one invocation to the next, so
  the factory is also given the number of invocations made before this one.
\<close>

type_synonym data_source_factory =
  "nat \<Rightarrow> typeorm_module_options option \<Rightarrow> err + data_source"

definition invoke ::
  "data_source_factory \<Rightarrow> typeorm_module_options option \<Rightarrow> world \<Rightarrow> (err + data_source) \<times> world" where
  "invoke factory arg w =
     (factory (length (factory_calls w)) arg, w\<lparr>factory_calls := factory_calls w @ [arg]\<rparr>)"

text \<open>
  The collaborators of the bootstrapper that are outside this repository or process-wide:
  the serialisation of a configuration, the entity registry, the connection manager of the
  mapping library (\<^verbatim>\<open>getConnectionManager()\<close>; \<open>Inl\<close> when reaching it throws) and the
  library's own \<^verbatim>\<open>createConnection\<close>.
\<close>

type_synonym connection_manager = "string \<rightharpoonup> data_source"

record collaborators =
  serialise :: "typeorm_module_options \<Rightarrow> string"
  storage :: storage
  getConnectionManager :: "err + connection_manager"
  createConnection :: data_source_factory

section \<open>Retry protocol\<close>

fun withDefault :: "'a \<Rightarrow> 'a option \<Rightarrow> 'a" where
  "withDefault d None = d"
| "withDefault d (Some x) = x"

text \<open>
  Modelled from the spec: the line logged before a retry.  It identifies the connection
  label and, when verbose, carries the error message.
\<close>

definition retryWarning :: "string \<Rightarrow> bool \<Rightarrow> err \<Rightarrow> log_entry" where
  "retryWarning label verbose e =
     RetryWarning label (if verbose then Some (message e) else None)"

text \<open>
  Modelled from the spec: the retry protocol of \<^verbatim>\<open>handleRetry\<close> (\<^verbatim>\<open>common/typeorm.utils\<close>
  is not among the sources).  The attempts count every run of the operation, the first one
  included: an operation that always fails raises after \<open>N\<close> attempts in all, that is
  \<open>N - 1\<close> retries, and with zero or negative attempts the first failure is fatal.
  \<open>remaining\<close> is the number of attempts left, the one about to run included.  On a
  failure, if the retry predicate holds of the error and attempts remain after the one that
  failed, a warning with the connection label and, when verbose, the error message is
  logged, the delay is waited, the remaining attempts are decremented and the operation is
  run again from scratch.  Otherwise the error propagates unchanged.
\<close>

function retryLoop ::
  "int \<Rightarrow> int \<Rightarrow> string \<Rightarrow> bool \<Rightarrow> (err \<Rightarrow> bool) \<Rightarrow>
   (world \<Rightarrow> (err + 'a) \<times> world) \<Rightarrow> world \<Rightarrow> (err + 'a) \<times> world" where
  "retryLoop remaining delayMs label verbose retryPredicate operation w =
     (case operation w of
        (Inr v, w') \<Rightarrow> (Inr v, w')
      | (Inl e, w') \<Rightarrow>
          if retryPredicate e \<and> remaining - 1 > 0
          then retryLoop (remaining - 1) delayMs label verbose retryPredicate operation
                 (w'\<lparr>logged := logged w' @ [retryWarning label verbose e],
                     waited := waited w' @ [delayMs]\<rparr>)
          else (Inl e, w'))"
  by pat_completeness auto
termination
  by (relation "measure (\<lambda>(remaining, _, _, _, _, _, _). nat remaining)") auto

declare retryLoop.simps [simp del]

text \<open>
  Modelled from the spec: the parameters of \<^verbatim>\<open>handleRetry\<close> and their defaults: ten
  attempts, a delay of 3000 milliseconds, a predicate that holds of every error, not verbose.
\<close>

definition handleRetry ::
  "int option \<Rightarrow> int option \<Rightarrow> string \<Rightarrow> bool option \<Rightarrow> (err \<Rightarrow> bool) option \<Rightarrow>
   (world \<Rightarrow> (err + 'a) \<times> world) \<Rightarrow> world \<Rightarrow> (err + 'a) \<times> world" where
  "handleRetry attempts delayMs label verbose retryPredicate operation w =
     retryLoop (withDefault 10 attempts) (withDefault 3000 delayMs) label
       (withDefault False verbose) (withDefault (\<lambda>_. True) retryPredicate) operation w"

section \<open>Connection bootstrapper\<close>

text \<open>\<^verbatim>\<open>Object.values\<close> of a mixed list: the elements of an array, the values of an object.\<close>

fun objectValues :: "'a mixed_list \<Rightarrow> 'a list" where
  "objectValues (MixedArray xs) = xs"
| "objectValues (MixedObject kvs) = map snd kvs"

text \<open>
  The guarded block at the head of the deferred function: with the keep-alive flag set, the
  connection the manager holds under the name, if it is initialised.  Anything thrown in the
  block is swallowed by the empty \<^verbatim>\<open>catch\<close>.
\<close>

definition existingDataSource ::
  "collaborators \<Rightarrow> typeorm_module_options \<Rightarrow> data_source option" where
  "existingDataSource env options =
     (if truthy (keepDataSourceAlive options)
      then (let dataSourceName = getDataSourceName (serialise env) options
            in case getConnectionManager env of
                 Inl _ \<Rightarrow> None
               | Inr manager \<Rightarrow>
                   (case manager dataSourceName of
                      None \<Rightarrow> None
                    | Some dataSource \<Rightarrow>
                        if isInitialized dataSource then Some dataSource else None))
      else None)"

text \<open>The function handed to \<^verbatim>\<open>defer\<close>: one connection attempt, run anew at every retry.\<close>

definition deferred ::
  "collaborators \<Rightarrow> typeorm_module_options \<Rightarrow> string \<Rightarrow> data_source_factory \<Rightarrow>
   world \<Rightarrow> (err + data_source) \<times> world" where
  "deferred env options dataSourceToken createTypeormDataSource w =
     (case existingDataSource env options of
        Some dataSource \<Rightarrow> (Inr dataSource, w)
      | None \<Rightarrow>
          if \<not> truthy_string (type options) then invoke createTypeormDataSource None w
          else if \<not> truthy (autoLoadEntities options)
          then invoke createTypeormDataSource (Some options) w
          else
            (let entities0 = map_option objectValues (entities options);
                 entities1 =
                   (case entities0 of
                      Some es \<Rightarrow> es @ getEntitiesByDataSource (storage env) dataSourceToken
                    | None \<Rightarrow> getEntitiesByDataSource (storage env) dataSourceToken)
             in invoke createTypeormDataSource
                  (Some (options\<lparr>entities := Some (MixedArray entities1)\<rparr>)) w))"

text \<open>\<^verbatim>\<open>dataSourceFactory ?? createConnection\<close>\<close>

definition createTypeormDataSource ::
  "collaborators \<Rightarrow> data_source_factory option \<Rightarrow> data_source_factory" where
  "createTypeormDataSource env dataSourceFactory =
     withDefault (createConnection env) dataSourceFactory"

definition createDataSourceFactory ::
  "collaborators \<Rightarrow> typeorm_module_options \<Rightarrow> data_source_factory option \<Rightarrow>
   world \<Rightarrow> (err + data_source) \<times> world" where
  "createDataSourceFactory env options dataSourceFactory w =
     (let dataSourceToken = getDataSourceName (serialise env) options
      in handleRetry (retryAttempts options) (retryDelay options) dataSourceToken
           (verboseRetryLog options) (toRetry options)
           (deferred env options dataSourceToken
              (createTypeormDataSource env dataSourceFactory)) w)"

text \<open>
  The entities of the configuration as an ordered list: none when the field is absent, the
  elements of an array, the values of a keyed object.
\<close>

definition configuredEntities :: "typeorm_module_options \<Rightarrow> entity list" where
  "configuredEntities options =
     (case entities options of None \<Rightarrow> [] | Some configured \<Rightarrow> objectValues configured)"

text \<open>
  What the three branches of the deferred function hand to the connection factory: nothing
  when no driver type is configured, the options as they are when auto-load is off, and
  otherwise the options with the merged entity list.
\<close>

definition factoryArgument ::
  "collaborators \<Rightarrow> typeorm_module_options \<Rightarrow> typeorm_module_options option" where
  "factoryArgument env options =
     (if \<not> truthy_string (type options) then None
      else if \<not> truthy (autoLoadEntities options) then Some options
      else Some (options\<lparr>entities :=
             Some (MixedArray
               (configuredEntities options @
                getEntitiesByDataSource (storage env)
                  (getDataSourceName (serialise env) options)))\<rparr>))"

text \<open>
  \<^verbatim>\<open>onApplicationShutdown\<close>.  \<open>moduleRefGet\<close> is the outcome of the container lookup
  \<^verbatim>\<open>this.moduleRef.get(token)\<close>: it throws (\<open>Inl\<close>) when no provider is registered under
  the token, and returns the connection or a falsy value otherwise.  The lookup stands
  before the \<^verbatim>\<open>try\<close>, so what it throws leaves the hook; \<open>close\<close> is the outcome of
  closing a connection, inside the \<^verbatim>\<open>try\<close>.
\<close>

definition onApplicationShutdown ::
  "typeorm_module_options \<Rightarrow> err + data_source option \<Rightarrow> (data_source \<Rightarrow> err + unit) \<Rightarrow>
   world \<Rightarrow> (err + unit) \<times> world" where
  "onApplicationShutdown options moduleRefGet close w =
     (if truthy (keepDataSourceAlive options) then (Inr (), w)
      else
        (case moduleRefGet of
           Inl thrown \<Rightarrow> (Inl thrown, w)
         | Inr dataSource \<Rightarrow>
             (let tried =
                    (case dataSource of
                       None \<Rightarrow> (Inr (), w)
                     | Some d \<Rightarrow> (close d, w\<lparr>close_calls := close_calls w @ [d]\<rparr>))
              in case tried of
                   (Inr _, w') \<Rightarrow> (Inr (), w')
                 | (Inl e, w') \<Rightarrow>
                     (Inr (), w'\<lparr>logged := logged w' @ [ErrorMessage (message e)]\<rparr>))))"

section \<open>Repository providers and feature registration\<close>

text \<open>
  What a provider's factory returns: the repository the connection gives for the entity,
  through \<^verbatim>\<open>getRepository\<close> or through \<^verbatim>\<open>getMongoRepository\<close>.
\<close>

datatype repository =
    GetRepository data_source entity
  | GetMongoRepository data_source entity

type_synonym token = string

text \<open>An entry of \<^verbatim>\<open>getMetadataArgsStorage().tables\<close>.\<close>

record table_metadata_args =
  target :: entity
  table_name :: string

record provider =
  provide :: token
  useFactory :: "data_source \<Rightarrow> repository"
  inject :: "token list"
  targetEntitySchema :: "table_metadata_args option"

text \<open>
  The helpers of \<^verbatim>\<open>common/typeorm.utils\<close> that compute injection tokens, the table
  metadata of the mapping library and the helper \<^verbatim>\<open>getCustomRepositoryEntity\<close> of
  \<^verbatim>\<open>helpers/get-custom-repository-entity\<close>, which gives the entity classes of the custom
  repository classes among a list of descriptors, are not among the sources: they are
  parameters.
\<close>

record helpers =
  getRepositoryToken :: "entity \<Rightarrow> data_source_ref option \<Rightarrow> token"
  getDataSourceToken :: "data_source_ref option \<Rightarrow> token"
  tables :: "table_metadata_args list"
  getCustomRepositoryEntity :: "entity list \<Rightarrow> entity list"

definition createTypeOrmProviders ::
  "helpers \<Rightarrow> entity list option \<Rightarrow> data_source_ref option \<Rightarrow> provider list" where
  "createTypeOrmProviders h ents dataSource =
     map (\<lambda>entity.
            \<lparr>provide = getRepositoryToken h entity dataSource,
             useFactory =
               (\<lambda>ds. if instanceofFunction entity \<and> prototypeInstanceofRepository entity
                      then GetRepository ds entity
                      else if ds_type ds = ''mongodb'' then GetMongoRepository ds entity
                      else GetRepository ds entity),
             inject = [getDataSourceToken h dataSource],
             targetEntitySchema = find (\<lambda>item. target item = entity) (tables h)\<rparr>)
         (case ents of None \<Rightarrow> [] | Some es \<Rightarrow> es)"

record dynamic_module =
  module :: string
  providers :: "provider list"
  exports :: "provider list"

text \<open>
  \<^verbatim>\<open>TypeOrmModule.forFeature\<close>; an omitted argument is \<open>None\<close> and takes its default.  The
  registry is process-wide state, so the updated registry is returned with the module.
\<close>

definition forFeature ::
  "(typeorm_module_options \<Rightarrow> string) \<Rightarrow> helpers \<Rightarrow> storage \<Rightarrow>
   entity list option \<Rightarrow> data_source_ref option \<Rightarrow> dynamic_module \<times> storage" where
  "forFeature ser h st entitiesArg dataSourceArg =
     (let ents = withDefault [] entitiesArg;
          dataSource = withDefault (RefString DEFAULT_DATA_SOURCE_NAME) dataSourceArg;
          provs = createTypeOrmProviders h (Some ents) (Some dataSource);
          customRepositoryEntities = getCustomRepositoryEntity h ents;
          st' = addEntitiesByDataSource ser st dataSource (ents @ customRepositoryEntities)
      in (\<lparr>module = ''TypeOrmModule'', providers = provs, exports = provs\<rparr>, st'))"

section \<open>Concrete inputs\<close>

text \<open>
  A connection, a configuration, collaborators and connection factories on which the
  properties below are instantiated.
\<close>

definition example_data_source :: data_source where
  "example_data_source = \<lparr>ds_id = 1, ds_type = ''postgres'', isInitialized = True\<rparr>"

definition example_mongo :: data_source where
  "example_mongo = \<lparr>ds_id = 2, ds_type = ''mongodb'', isInitialized = True\<rparr>"

definition example_env :: collaborators where
  "example_env =
     \<lparr>serialise = (\<lambda>_. ''serialised''),
      storage = [''default'' \<mapsto> [EntityClass ''Y'', EntityClass ''Z'']],
      getConnectionManager = Inr [''default'' \<mapsto> example_data_source],
      createConnection = (\<lambda>_ _. Inl (Err ''no connection options''))\<rparr>"

definition example_options :: typeorm_module_options where
  "example_options =
     \<lparr>retryAttempts = Some 3, retryDelay = None, toRetry = None,
      autoLoadEntities = Some True, keepDataSourceAlive = None, verboseRetryLog = None,
      name = Some ''default'', type = Some ''postgres'',
      entities = Some (MixedObject [(''x'', EntityClass ''X'')])\<rparr>"

definition failingTimes :: "nat \<Rightarrow> err \<Rightarrow> data_source \<Rightarrow> data_source_factory" where
  "failingTimes n e ds k a = (if k < n then Inl e else Inr ds)"

definition alwaysFailing :: "err \<Rightarrow> data_source_factory" where
  "alwaysFailing e k a = Inl e"

definition failingClose :: "err \<Rightarrow> data_source \<Rightarrow> err + unit" where
  "failingClose e ds = Inl e"


definition userRepositoryEntity :: "entity list \<Rightarrow> entity list" where
  "userRepositoryEntity ents =
     (if RepositoryClass ''UserRepository'' \<in> set ents then [EntityClass ''User''] else [])"

definition example_helpers :: helpers where
  "example_helpers =
     \<lparr>getRepositoryToken = (\<lambda>_ _. ''UserRepository''),
      getDataSourceToken = (\<lambda>_. ''DataSource''),
      tables = [],
      getCustomRepositoryEntity = userRepositoryEntity\<rparr>"

section \<open>Properties of the entity registry\<close>

lemma set_removeDuplicates: "set (removeDuplicates xs) = set xs"
  by (simp add: removeDuplicates_def)

lemma removeDuplicates_snoc:
  "removeDuplicates (xs @ [x]) = pushUnique (removeDuplicates xs) x"
  by (simp add: removeDuplicates_def pushUnique_def)

lemma foldl_pushUnique_removeDuplicates:
  "foldl pushUnique (removeDuplicates xs) es = removeDuplicates (xs @ es)"
proof (induction es rule: rev_induct)
  case Nil
  then show ?case by simp
next
  case (snoc e es)
  have "foldl pushUnique (removeDuplicates xs) (es @ [e])
      = pushUnique (removeDuplicates (xs @ es)) e"
    using snoc.IH by simp
  also have "\<dots> = removeDuplicates ((xs @ es) @ [e])"
    by (rule removeDuplicates_snoc [symmetric])
  finally show ?case by simp
qed

lemma foldl_pushUnique_prefix: "prefix collection (foldl pushUnique collection es)"
proof (induction es rule: rev_induct)
  case Nil
  then show ?case by simp
next
  case (snoc e es)
  then show ?case by (auto simp: pushUnique_def)
qed

lemma getEntities_add_same:
  "resolveKey ser r = key \<Longrightarrow>
   getEntitiesByDataSource (addEntitiesByDataSource ser st r es) key
     = foldl pushUnique (getEntitiesByDataSource st key) es"
  by (simp add: addEntitiesByDataSource_def getEntitiesByDataSource_def Let_def)

lemma getEntities_add_other:
  "resolveKey ser r \<noteq> key \<Longrightarrow>
   getEntitiesByDataSource (addEntitiesByDataSource ser st r es) key
     = getEntitiesByDataSource st key"
  by (simp add: addEntitiesByDataSource_def getEntitiesByDataSource_def Let_def)

lemma getEntities_empty: "getEntitiesByDataSource Map.empty key = []"
  by (simp add: getEntitiesByDataSource_def)

lemma getEntities_registerAll:
  "getEntitiesByDataSource st key = removeDuplicates xs \<Longrightarrow>
   getEntitiesByDataSource (registerAll ser st regs) key
     = removeDuplicates (xs @ registeredUnder ser key regs)"
proof (induction regs arbitrary: st xs)
  case Nil
  then show ?case by (simp add: registeredUnder_def)
next
  case (Cons reg regs)
  obtain r es where reg: "reg = (r, es)" by (cases reg)
  show ?case
  proof (cases "resolveKey ser r = key")
    case True
    have "getEntitiesByDataSource (addEntitiesByDataSource ser st r es) key
        = removeDuplicates (xs @ es)"
      using True Cons.prems
      by (simp add: getEntities_add_same foldl_pushUnique_removeDuplicates)
    from Cons.IH [OF this] show ?thesis
      using True by (simp add: reg registeredUnder_def)
  next
    case False
    have "getEntitiesByDataSource (addEntitiesByDataSource ser st r es) key
        = removeDuplicates xs"
      using False Cons.prems by (simp add: getEntities_add_other)
    from Cons.IH [OF this] show ?thesis
      using False by (simp add: reg registeredUnder_def)
  qed
qed

lemma unregistered_stays:
  "key \<notin> resolveKey ser ` fst ` set regs \<Longrightarrow>
   getEntitiesByDataSource (registerAll ser st regs) key = getEntitiesByDataSource st key"
proof (induction regs arbitrary: st)
  case Nil
  then show ?case by simp
next
  case (Cons reg regs)
  obtain r es where reg: "reg = (r, es)" by (cases reg)
  from Cons.prems have ne: "resolveKey ser r \<noteq> key"
    and rest: "key \<notin> resolveKey ser ` fst ` set regs"
    by (auto simp: reg)
  show ?case using Cons.IH [OF rest] ne by (simp add: reg getEntities_add_other)
qed

text \<open>
  Claim C6.  Starting from the empty registry, after any sequence of registrations the
  collection looked up under a key is the concatenation, in registration order, of the lists
  registered under that key, with duplicates removed (the first occurrence stays).  A single
  registration, from any registry and under any key, leaves what every key held before as a
  prefix of what it holds afterwards: nothing is overwritten.
\<close>

theorem registry_accumulates:
  "getEntitiesByDataSource (registerAll ser Map.empty regs) key
     = removeDuplicates (registeredUnder ser key regs)
   \<and> prefix (getEntitiesByDataSource st key')
        (getEntitiesByDataSource (addEntitiesByDataSource ser st r es) key')"
proof
  have "getEntitiesByDataSource Map.empty key = removeDuplicates []"
    by (simp add: getEntities_empty removeDuplicates_def)
  from getEntities_registerAll [OF this]
  show "getEntitiesByDataSource (registerAll ser Map.empty regs) key
     = removeDuplicates (registeredUnder ser key regs)" by simp
next
  show "prefix (getEntitiesByDataSource st key')
        (getEntitiesByDataSource (addEntitiesByDataSource ser st r es) key')"
    by (cases "resolveKey ser r = key'")
       (simp_all add: getEntities_add_same getEntities_add_other foldl_pushUnique_prefix)
qed

text \<open>
  The example of the specification: \<open>[A, B]\<close> and then \<open>[C]\<close> registered under
  \<^verbatim>\<open>"default"\<close> are looked up as \<open>[A, B, C]\<close>.
\<close>

theorem registry_accumulates_witness:
  "getEntitiesByDataSource
     (registerAll (serialise example_env) Map.empty
        [(RefString ''default'', [EntityClass ''A'', EntityClass ''B'']),
         (RefString ''default'', [EntityClass ''C''])]) ''default''
     = [EntityClass ''A'', EntityClass ''B'', EntityClass ''C'']"
  using registry_accumulates [of "serialise example_env"
      "[(RefString ''default'', [EntityClass ''A'', EntityClass ''B'']),
        (RefString ''default'', [EntityClass ''C''])]" "''default''"]
  by (simp add: registeredUnder_def removeDuplicates_def)

text \<open>
  Claim C7.  Starting from the empty registry, a key under which no registration was made
  is looked up as the empty collection.  The lookup is a total function into collections:
  it has no error result.
\<close>

theorem lookup_unregistered_empty:
  "key \<notin> resolveKey ser ` fst ` set regs \<Longrightarrow>
   getEntitiesByDataSource (registerAll ser Map.empty regs) key = []"
  by (simp add: unregistered_stays getEntities_empty)

theorem lookup_unregistered_empty_witness:
  "''other'' \<notin> resolveKey (serialise example_env) ` fst ` set [(RefString ''default'', [EntityClass ''A''])]
   \<and> getEntitiesByDataSource
       (registerAll (serialise example_env) Map.empty [(RefString ''default'', [EntityClass ''A''])])
       ''other'' = []"
proof -
  have h: "''other'' \<notin> resolveKey (serialise example_env) ` fst ` set [(RefString ''default'', [EntityClass ''A''])]"
    by simp
  from lookup_unregistered_empty [OF h] h show ?thesis by simp
qed

section \<open>Properties of the retry protocol and of the bootstrapper\<close>

lemma retryLoop_success:
  "operation w = (Inr v, w') \<Longrightarrow>
   retryLoop remaining d l vb p operation w = (Inr v, w')"
  by (subst retryLoop.simps) simp

lemma retryLoop_fatal:
  "operation w = (Inl e, w') \<Longrightarrow> \<not> (p e \<and> remaining - 1 > 0) \<Longrightarrow>
   retryLoop remaining d l vb p operation w = (Inl e, w')"
  by (subst retryLoop.simps) auto

lemma retryLoop_retry:
  "operation w = (Inl e, w') \<Longrightarrow> remaining - 1 > 0 \<Longrightarrow> p e \<Longrightarrow>
   retryLoop remaining d l vb p operation w =
   retryLoop (remaining - 1) d l vb p operation
     (w'\<lparr>logged := logged w' @ [retryWarning l vb e], waited := waited w' @ [d]\<rparr>)"
  by (subst retryLoop.simps) simp

lemma retryLoop_failures:
  assumes "int (length errs) < remaining"
    and "\<And>j. j < length errs \<Longrightarrow> factory (length (factory_calls w) + j) arg = Inl (errs ! j)"
    and "\<And>e. e \<in> set errs \<Longrightarrow> p e"
  shows "retryLoop remaining d l vb p (invoke factory arg) w =
         retryLoop (remaining - int (length errs)) d l vb p (invoke factory arg)
           (w\<lparr>factory_calls := factory_calls w @ replicate (length errs) arg,
              logged := logged w @ map (retryWarning l vb) errs,
              waited := waited w @ replicate (length errs) d\<rparr>)"
  using assms
proof (induction errs arbitrary: w remaining)
  case Nil
  then show ?case by simp
next
  case (Cons e errs)
  let ?w1 = "w\<lparr>factory_calls := factory_calls w @ [arg],
                logged := logged w @ [retryWarning l vb e],
                waited := waited w @ [d]\<rparr>"
  have first: "invoke factory arg w = (Inl e, w\<lparr>factory_calls := factory_calls w @ [arg]\<rparr>)"
    using Cons.prems(2) [of 0] by (simp add: invoke_def)
  have pos: "remaining - 1 > 0" using Cons.prems(1) by simp
  have pe: "p e" using Cons.prems(3) by simp
  have step: "retryLoop remaining d l vb p (invoke factory arg) w =
              retryLoop (remaining - 1) d l vb p (invoke factory arg) ?w1"
    using retryLoop_retry [where operation = "invoke factory arg" and w = w and p = p and e = e, OF first pos pe] by simp
  have rest: "\<And>j. j < length errs \<Longrightarrow>
                factory (length (factory_calls ?w1) + j) arg = Inl (errs ! j)"
    using Cons.prems(2) [of "Suc j" for j] by simp
  have "retryLoop (remaining - 1) d l vb p (invoke factory arg) ?w1 =
        retryLoop (remaining - 1 - int (length errs)) d l vb p (invoke factory arg)
          (?w1\<lparr>factory_calls := factory_calls ?w1 @ replicate (length errs) arg,
              logged := logged ?w1 @ map (retryWarning l vb) errs,
              waited := waited ?w1 @ replicate (length errs) d\<rparr>)"
    using Cons.prems(1,3) by (intro Cons.IH rest) auto
  with step show ?case by (simp add: replicate_app_Cons_same algebra_simps)
qed

lemma retryLoop_calls:
  "\<exists>n>0. factory_calls (snd (retryLoop remaining d l vb p (invoke factory arg) w))
          = factory_calls w @ replicate n arg"
proof (induction remaining d l vb p "invoke factory arg :: world \<Rightarrow> (err + data_source) \<times> world" w
       rule: retryLoop.induct)
  case (1 remaining d l vb p w)
  let ?w' = "w\<lparr>factory_calls := factory_calls w @ [arg]\<rparr>"
  show ?case
  proof (cases "factory (length (factory_calls w)) arg")
    case (Inr v)
    then have "invoke factory arg w = (Inr v, ?w')" by (simp add: invoke_def)
    from retryLoop_success [where operation = "invoke factory arg" and w = w, OF this]
    have "factory_calls (snd (retryLoop remaining d l vb p (invoke factory arg) w))
            = factory_calls w @ replicate 1 arg" by simp
    then show ?thesis by blast
  next
    case (Inl e)
    then have inv: "invoke factory arg w = (Inl e, ?w')" by (simp add: invoke_def)
    show ?thesis
    proof (cases "p e \<and> remaining - 1 > 0")
      case False
      from retryLoop_fatal [where operation = "invoke factory arg" and w = w and p = p and e = e, OF inv False]
      have "factory_calls (snd (retryLoop remaining d l vb p (invoke factory arg) w))
            = factory_calls w @ replicate 1 arg" by simp
      then show ?thesis by blast
    next
      case True
      let ?w1 = "?w'\<lparr>logged := logged ?w' @ [retryWarning l vb e],
                     waited := waited ?w' @ [d]\<rparr>"
      from "1" [OF inv [symmetric] refl True]
      obtain n where n: "n > 0"
        "factory_calls (snd (retryLoop (remaining - 1) d l vb p (invoke factory arg) ?w1))
           = factory_calls ?w1 @ replicate n arg" by blast
      from True inv have "retryLoop remaining d l vb p (invoke factory arg) w
           = retryLoop (remaining - 1) d l vb p (invoke factory arg) ?w1"
        using retryLoop_retry [where operation = "invoke factory arg" and w = w and p = p and e = e, OF inv] by simp
      with n have "factory_calls (snd (retryLoop remaining d l vb p (invoke factory arg) w))
            = factory_calls w @ replicate (Suc n) arg"
        by (simp add: replicate_app_Cons_same)
      then show ?thesis by blast
    qed
  qed
qed

lemma deferred_fresh:
  "existingDataSource env options = None \<Longrightarrow>
   deferred env options (getDataSourceName (serialise env) options) factory
     = invoke factory (factoryArgument env options)"
  by (rule ext) (simp add: deferred_def factoryArgument_def configuredEntities_def Let_def
       split: option.splits)

lemma deferred_existing:
  "existingDataSource env options = Some ds \<Longrightarrow>
   deferred env options tok factory w = (Inr ds, w)"
  by (simp add: deferred_def)

lemma create_fresh:
  "existingDataSource env options = None \<Longrightarrow>
   createDataSourceFactory env options dsf w =
   retryLoop (withDefault 10 (retryAttempts options)) (withDefault 3000 (retryDelay options))
     (getDataSourceName (serialise env) options) (withDefault False (verboseRetryLog options))
     (withDefault (\<lambda>_. True) (toRetry options))
     (invoke (createTypeormDataSource env dsf) (factoryArgument env options)) w"
  by (simp add: createDataSourceFactory_def handleRetry_def Let_def deferred_fresh)

lemma create_existing:
  "existingDataSource env options = Some ds \<Longrightarrow>
   createDataSourceFactory env options dsf w = (Inr ds, w)"
  unfolding createDataSourceFactory_def handleRetry_def Let_def
  by (rule retryLoop_success) (rule deferred_existing)

lemma existingDataSource_Some_iff:
  "(existingDataSource env options \<noteq> None) =
   (truthy (keepDataSourceAlive options) \<and>
    (\<exists>manager ds. getConnectionManager env = Inr manager
        \<and> manager (getDataSourceName (serialise env) options) = Some ds
        \<and> isInitialized ds))"
  by (auto simp: existingDataSource_def Let_def split: sum.splits option.splits if_splits)

lemma create_calls:
  "\<exists>n. factory_calls (snd (createDataSourceFactory env options dsf w))
          = factory_calls w @ replicate n (factoryArgument env options)
        \<and> (0 < n) = (existingDataSource env options = None)"
proof (cases "existingDataSource env options")
  case None
  obtain n where "n > 0"
    "factory_calls (snd (createDataSourceFactory env options dsf w))
       = factory_calls w @ replicate n (factoryArgument env options)"
    using retryLoop_calls create_fresh [OF None, of dsf w] by metis
  with None show ?thesis by blast
next
  case (Some ds)
  show ?thesis
    using create_existing [OF Some, of dsf w] Some by (intro exI [of _ 0]) simp
qed

lemma example_fresh: "existingDataSource example_env example_options = None"
  by (simp add: existingDataSource_def example_options_def)

lemma example_fresh_attempts:
  "existingDataSource example_env (example_options\<lparr>retryAttempts := a\<rparr>) = None"
  by (simp add: existingDataSource_def example_options_def)

section \<open>Connection bootstrap: retries\<close>

text \<open>
  Claim C1.  Let the attempts in force be \<open>N > 0\<close> (the configured value, ten when none is
  configured), let no initialised connection be reused, and let the connection factory fail
  on its next \<open>N - 1\<close> invocations, with errors \<open>errs\<close> that the retry predicate accepts, and
  succeed with the connection \<open>ds\<close> on the invocation after them.  Then the bootstrap returns
  \<open>ds\<close>, the factory has been invoked \<open>N\<close> times, and the lines logged are exactly the
  \<open>N - 1\<close> retry warnings, one for each failed attempt, in order.
\<close>

theorem bootstrap_succeeds_after_failures:
  assumes attempts: "withDefault 10 (retryAttempts options) = N"
    and positive: "0 < N"
    and count: "int (length errs) = N - 1"
    and fails: "\<And>j a. j < length errs \<Longrightarrow>
        createTypeormDataSource env dsf (length (factory_calls w) + j) a = Inl (errs ! j)"
    and retryable: "\<And>e. e \<in> set errs \<Longrightarrow> withDefault (\<lambda>_. True) (toRetry options) e"
    and succeeds: "\<And>a.
        createTypeormDataSource env dsf (length (factory_calls w) + length errs) a = Inr ds"
    and fresh: "existingDataSource env options = None"
  shows "fst (createDataSourceFactory env options dsf w) = Inr ds
       \<and> length (factory_calls (snd (createDataSourceFactory env options dsf w)))
           = length (factory_calls w) + nat N
       \<and> logged (snd (createDataSourceFactory env options dsf w))
           = logged w @ map (retryWarning (getDataSourceName (serialise env) options)
                               (withDefault False (verboseRetryLog options))) errs"
proof -
  let ?f = "createTypeormDataSource env dsf"
  let ?A = "factoryArgument env options"
  let ?d = "withDefault 3000 (retryDelay options)"
  let ?l = "getDataSourceName (serialise env) options"
  let ?vb = "withDefault False (verboseRetryLog options)"
  let ?p = "withDefault (\<lambda>_. True) (toRetry options)"
  let ?w1 = "w\<lparr>factory_calls := factory_calls w @ replicate (length errs) ?A,
                logged := logged w @ map (retryWarning ?l ?vb) errs,
                waited := waited w @ replicate (length errs) ?d\<rparr>"
  have le: "int (length errs) < N" using count by simp
  have run: "retryLoop N ?d ?l ?vb ?p (invoke ?f ?A) w
           = retryLoop (N - int (length errs)) ?d ?l ?vb ?p (invoke ?f ?A) ?w1"
    using le fails retryable
    by (intro retryLoop_failures [where errs = errs and p = ?p and factory = ?f
          and arg = ?A and w = w]) blast+
  have last: "invoke ?f ?A ?w1 = (Inr ds, ?w1\<lparr>factory_calls := factory_calls ?w1 @ [?A]\<rparr>)"
    using succeeds [of ?A] by (simp add: invoke_def)
  have "createDataSourceFactory env options dsf w
      = (Inr ds, ?w1\<lparr>factory_calls := factory_calls ?w1 @ [?A]\<rparr>)"
    using create_fresh [OF fresh, of dsf w] attempts run
      retryLoop_success [where operation = "invoke ?f ?A" and w = ?w1, OF last]
    by simp
  moreover have "Suc (length errs) = nat N" using count positive by linarith
  ultimately show ?thesis by simp
qed

text \<open>
  Three attempts, a factory that fails twice and then succeeds: the connection is returned
  after three invocations and two warnings.
\<close>

theorem bootstrap_succeeds_after_failures_witness:
  "fst (createDataSourceFactory example_env example_options
          (Some (failingTimes 2 (Err ''down'') example_data_source)) initial_world)
     = Inr example_data_source
   \<and> length (factory_calls (snd (createDataSourceFactory example_env example_options
          (Some (failingTimes 2 (Err ''down'') example_data_source)) initial_world))) = 3
   \<and> logged (snd (createDataSourceFactory example_env example_options
          (Some (failingTimes 2 (Err ''down'') example_data_source)) initial_world))
     = [RetryWarning ''default'' None, RetryWarning ''default'' None]"
proof -
  let ?dsf = "Some (failingTimes 2 (Err ''down'') example_data_source)"
  let ?errs = "[Err ''down'', Err ''down'']"
  have attempts: "withDefault 10 (retryAttempts example_options) = 3"
    by (simp add: example_options_def)
  have fails: "\<And>j a. j < length ?errs \<Longrightarrow>
      createTypeormDataSource example_env ?dsf (length (factory_calls initial_world) + j) a
        = Inl (?errs ! j)"
    by (simp add: createTypeormDataSource_def failingTimes_def initial_world_def nth_Cons')
  have retryable: "\<And>e. e \<in> set ?errs \<Longrightarrow> withDefault (\<lambda>_. True) (toRetry example_options) e"
    by (simp add: example_options_def)
  have succeeds: "\<And>a. createTypeormDataSource example_env ?dsf
      (length (factory_calls initial_world) + length ?errs) a = Inr example_data_source"
    by (simp add: createTypeormDataSource_def failingTimes_def initial_world_def)
  show ?thesis
    using bootstrap_succeeds_after_failures [where options = example_options and N = 3
        and errs = ?errs and env = example_env and dsf = ?dsf and w = initial_world
        and ds = example_data_source, OF attempts _ _ fails retryable succeeds example_fresh]
    by (simp add: initial_world_def retryWarning_def getDataSourceName_def example_options_def)
qed

text \<open>
  Claim C2, amended.  Let the attempts in force be \<open>N\<close>, let no initialised connection be
  reused, and let every invocation of the connection factory fail, the \<open>j\<close>-th one with the
  error \<open>errs j\<close>, each accepted by the retry predicate.  Then the bootstrap raises after
  exactly \<open>max N 1\<close> invocations of the factory: \<open>N\<close> of them, the initial attempt and
  \<open>N - 1\<close> retries, when \<open>N\<close> is at least one, and the initial attempt alone when \<open>N\<close> is
  zero or negative.  The error raised is the one the last invocation produced, as it was
  produced.
\<close>

theorem bootstrap_always_failing:
  assumes attempts: "withDefault 10 (retryAttempts options) = N"
    and fails: "\<And>j a.
        createTypeormDataSource env dsf (length (factory_calls w) + j) a = Inl (errs j)"
    and retryable: "\<And>j. withDefault (\<lambda>_. True) (toRetry options) (errs j)"
    and fresh: "existingDataSource env options = None"
  shows "fst (createDataSourceFactory env options dsf w) = Inl (errs (nat (max N 1) - 1))
       \<and> length (factory_calls (snd (createDataSourceFactory env options dsf w)))
           = length (factory_calls w) + nat (max N 1)"
proof -
  let ?f = "createTypeormDataSource env dsf"
  let ?A = "factoryArgument env options"
  let ?d = "withDefault 3000 (retryDelay options)"
  let ?l = "getDataSourceName (serialise env) options"
  let ?vb = "withDefault False (verboseRetryLog options)"
  let ?p = "withDefault (\<lambda>_. True) (toRetry options)"
  let ?m = "nat (N - 1)"
  let ?es = "map errs [0..<?m]"
  let ?w1 = "w\<lparr>factory_calls := factory_calls w @ replicate (length ?es) ?A,
                logged := logged w @ map (retryWarning ?l ?vb) ?es,
                waited := waited w @ replicate (length ?es) ?d\<rparr>"
  have f: "\<And>j. j < length ?es \<Longrightarrow> ?f (length (factory_calls w) + j) ?A = Inl (?es ! j)"
    using fails by simp
  have p: "\<And>e. e \<in> set ?es \<Longrightarrow> ?p e" using retryable by auto
  have run: "retryLoop N ?d ?l ?vb ?p (invoke ?f ?A) w
           = retryLoop (N - int (length ?es)) ?d ?l ?vb ?p (invoke ?f ?A) ?w1"
  proof (cases "1 \<le> N")
    case True
    then have "int (length ?es) < N" by simp
    then show ?thesis
      using f p
      by (intro retryLoop_failures [where errs = ?es and p = ?p and factory = ?f
            and arg = ?A and w = w]) blast+
  next
    case False
    then show ?thesis by simp
  qed
  have last: "invoke ?f ?A ?w1
            = (Inl (errs ?m), ?w1\<lparr>factory_calls := factory_calls ?w1 @ [?A]\<rparr>)"
    using fails [of ?m ?A] by (simp add: invoke_def)
  have spent: "\<not> (?p (errs ?m) \<and> N - int (length ?es) - 1 > 0)" by simp
  have "createDataSourceFactory env options dsf w
      = (Inl (errs ?m), ?w1\<lparr>factory_calls := factory_calls ?w1 @ [?A]\<rparr>)"
    using create_fresh [OF fresh, of dsf w] attempts run
      retryLoop_fatal [where operation = "invoke ?f ?A" and w = ?w1 and p = ?p
        and e = "errs ?m", OF last spent]
    by simp
  moreover have "nat (max N 1) - 1 = ?m" "nat (max N 1) = Suc ?m" by linarith+
  ultimately show ?thesis by simp
qed

text \<open>Three attempts configured, a factory that always fails: three invocations.\<close>

theorem bootstrap_always_failing_witness:
  "fst (createDataSourceFactory example_env example_options
          (Some (alwaysFailing (Err ''down''))) initial_world) = Inl (Err ''down'')
   \<and> length (factory_calls (snd (createDataSourceFactory example_env example_options
          (Some (alwaysFailing (Err ''down''))) initial_world))) = 3"
proof -
  let ?dsf = "Some (alwaysFailing (Err ''down''))"
  have attempts: "withDefault 10 (retryAttempts example_options) = 3"
    by (simp add: example_options_def)
  have fails: "\<And>j a. createTypeormDataSource example_env ?dsf
      (length (factory_calls initial_world) + j) a = Inl ((\<lambda>_. Err ''down'') j)"
    by (simp add: createTypeormDataSource_def alwaysFailing_def)
  have retryable: "\<And>j. withDefault (\<lambda>_. True) (toRetry example_options) ((\<lambda>_. Err ''down'') j)"
    by (simp add: example_options_def)
  show ?thesis
    using bootstrap_always_failing [where options = example_options and N = 3
        and env = example_env and dsf = ?dsf and w = initial_world
        and errs = "\<lambda>_. Err ''down''", OF attempts fails retryable example_fresh]
    by (simp add: initial_world_def)
qed

text \<open>
  Claim C2 as stated asks for exactly \<open>N\<close> invocations for every \<open>N\<close>.  With zero attempts
  configured and a factory that always fails, the initial attempt is still made: the
  factory is invoked once, not zero times, before the error is raised.
\<close>

theorem zero_attempts_one_invocation_counterexample:
  "withDefault 10 (retryAttempts (example_options\<lparr>retryAttempts := Some 0\<rparr>)) = 0
   \<and> fst (createDataSourceFactory example_env (example_options\<lparr>retryAttempts := Some 0\<rparr>)
          (Some (alwaysFailing (Err ''down''))) initial_world) = Inl (Err ''down'')
   \<and> length (factory_calls (snd (createDataSourceFactory example_env
          (example_options\<lparr>retryAttempts := Some 0\<rparr>)
          (Some (alwaysFailing (Err ''down''))) initial_world))) = 1"
proof -
  let ?o = "example_options\<lparr>retryAttempts := Some 0\<rparr>"
  let ?f = "createTypeormDataSource example_env (Some (alwaysFailing (Err ''down'')))"
  let ?A = "factoryArgument example_env ?o"
  let ?w1 = "initial_world\<lparr>factory_calls := [?A]\<rparr>"
  have first: "invoke ?f ?A initial_world = (Inl (Err ''down''), ?w1)"
    by (simp add: invoke_def createTypeormDataSource_def alwaysFailing_def initial_world_def)
  have "createDataSourceFactory example_env ?o (Some (alwaysFailing (Err ''down''))) initial_world
      = retryLoop 0 3000 ''default'' False (\<lambda>_. True) (invoke ?f ?A) initial_world"
    using create_fresh [OF example_fresh_attempts, of "Some 0"]
    by (simp add: example_options_def getDataSourceName_def example_env_def)
  also have "\<dots> = (Inl (Err ''down''), ?w1)"
    using retryLoop_fatal [where operation = "invoke ?f ?A" and w = initial_world
        and p = "\<lambda>_. True" and e = "Err ''down''" and remaining = 0, OF first]
    by simp
  finally show ?thesis by simp
qed




section \<open>Connection bootstrap: reuse and entity list\<close>

text \<open>
  Claim C4.  With the keep-alive flag set and an initialised connection held by the
  connection manager under the resolved logical name, the bootstrap returns that connection
  and leaves the world as it was: the connection factory is not invoked, nothing is logged.
  In every other case the factory is invoked: the bootstrap ends with no invocation added
  exactly in that case.
\<close>

theorem keep_alive_reuse:
  "(truthy (keepDataSourceAlive options)
      \<and> getConnectionManager env = Inr manager
      \<and> manager (getDataSourceName (serialise env) options) = Some ds
      \<and> isInitialized ds
    \<longrightarrow> createDataSourceFactory env options dsf w = (Inr ds, w))
   \<and> ((factory_calls (snd (createDataSourceFactory env options dsf w)) = factory_calls w)
      = (truthy (keepDataSourceAlive options)
         \<and> (\<exists>m d. getConnectionManager env = Inr m
               \<and> m (getDataSourceName (serialise env) options) = Some d
               \<and> isInitialized d)))"
proof (intro conjI impI)
  assume "truthy (keepDataSourceAlive options)
      \<and> getConnectionManager env = Inr manager
      \<and> manager (getDataSourceName (serialise env) options) = Some ds
      \<and> isInitialized ds"
  then have "existingDataSource env options = Some ds"
    by (simp add: existingDataSource_def)
  then show "createDataSourceFactory env options dsf w = (Inr ds, w)"
    by (rule create_existing)
next
  obtain n where n: "factory_calls (snd (createDataSourceFactory env options dsf w))
          = factory_calls w @ replicate n (factoryArgument env options)"
        "(0 < n) = (existingDataSource env options = None)"
    using create_calls by blast
  have "(factory_calls (snd (createDataSourceFactory env options dsf w)) = factory_calls w)
      = (existingDataSource env options \<noteq> None)"
    using n by auto
  then show "(factory_calls (snd (createDataSourceFactory env options dsf w)) = factory_calls w)
      = (truthy (keepDataSourceAlive options)
         \<and> (\<exists>m d. getConnectionManager env = Inr m
               \<and> m (getDataSourceName (serialise env) options) = Some d
               \<and> isInitialized d))"
    by (simp only: existingDataSource_Some_iff)
qed

text \<open>
  The manager holds an initialised connection under \<^verbatim>\<open>"default"\<close>; a factory that would
  fail is never asked.
\<close>

theorem keep_alive_reuse_witness:
  "createDataSourceFactory example_env (example_options\<lparr>keepDataSourceAlive := Some True\<rparr>)
     (Some (alwaysFailing (Err ''down''))) initial_world
   = (Inr example_data_source, initial_world)"
  using keep_alive_reuse [where options = "example_options\<lparr>keepDataSourceAlive := Some True\<rparr>"
      and env = example_env and manager = "[''default'' \<mapsto> example_data_source]"
      and ds = example_data_source and dsf = "Some (alwaysFailing (Err ''down''))"
      and w = initial_world]
  by (simp add: example_env_def example_options_def getDataSourceName_def
        example_data_source_def)

text \<open>
  Claim C5.  With auto-load enabled and a driver type configured, every invocation of the
  connection factory made by the bootstrap receives the options with the entity list
  replaced by the configured entities, in their order (the values of a keyed object, none
  when the field is absent), followed by the collection the registry holds under the
  resolved logical name.  At least one invocation is made unless an initialised connection
  is reused.
\<close>

theorem auto_load_entities:
  assumes auto: "truthy (autoLoadEntities options)"
    and driver: "truthy_string (type options)"
  shows "\<exists>n. factory_calls (snd (createDataSourceFactory env options dsf w))
          = factory_calls w @ replicate n
              (Some (options\<lparr>entities := Some (MixedArray
                 ((case entities options of
                     None \<Rightarrow> []
                   | Some (MixedArray xs) \<Rightarrow> xs
                   | Some (MixedObject kvs) \<Rightarrow> map snd kvs)
                  @ getEntitiesByDataSource (storage env)
                      (getDataSourceName (serialise env) options)))\<rparr>))
        \<and> (0 < n) = (existingDataSource env options = None)"
proof -
  have "(case entities options of
                     None \<Rightarrow> []
                   | Some (MixedArray xs) \<Rightarrow> xs
                   | Some (MixedObject kvs) \<Rightarrow> map snd kvs) = configuredEntities options"
    by (simp add: configuredEntities_def split: option.splits mixed_list.splits)
  then have "factoryArgument env options = Some (options\<lparr>entities := Some (MixedArray
                 ((case entities options of
                     None \<Rightarrow> []
                   | Some (MixedArray xs) \<Rightarrow> xs
                   | Some (MixedObject kvs) \<Rightarrow> map snd kvs)
                  @ getEntitiesByDataSource (storage env)
                      (getDataSourceName (serialise env) options)))\<rparr>)"
    using auto driver by (simp add: factoryArgument_def)
  then show ?thesis using create_calls [of env options dsf w] by simp
qed

text \<open>
  \<open>X\<close> configured in keyed form and \<open>Y\<close>, \<open>Z\<close> in the registry: the factory receives
  \<open>[X, Y, Z]\<close>.
\<close>

theorem auto_load_entities_witness:
  "truthy (autoLoadEntities example_options) \<and> truthy_string (type example_options)
   \<and> (\<exists>n > 0. factory_calls (snd (createDataSourceFactory example_env example_options
          (Some (failingTimes 1 (Err ''down'') example_data_source)) initial_world))
        = replicate n (Some (example_options\<lparr>entities :=
            Some (MixedArray [EntityClass ''X'', EntityClass ''Y'', EntityClass ''Z''])\<rparr>)))"
proof -
  have auto: "truthy (autoLoadEntities example_options)"
    by (simp add: example_options_def)
  have driver: "truthy_string (type example_options)"
    by (simp add: example_options_def)
  have ents: "(case entities example_options of None \<Rightarrow> []
        | Some (MixedArray xs) \<Rightarrow> xs | Some (MixedObject kvs) \<Rightarrow> map snd kvs)
        @ getEntitiesByDataSource (storage example_env)
            (getDataSourceName (serialise example_env) example_options)
      = [EntityClass ''X'', EntityClass ''Y'', EntityClass ''Z'']"
    by (simp add: example_options_def example_env_def getDataSourceName_def
          getEntitiesByDataSource_def)
  show ?thesis
    using auto_load_entities [OF auto driver, of example_env
        "Some (failingTimes 1 (Err ''down'') example_data_source)" initial_world]
      auto driver example_fresh
    unfolding ents by (auto simp: initial_world_def)
qed

section \<open>Shutdown\<close>

text \<open>
  What the hook contains.  With the keep-alive flag set nothing is done.  Otherwise, when
  the container lookup returns the connection \<open>ds\<close>, \<^verbatim>\<open>close\<close> is called on it once and
  the hook completes, an error of that call being logged by its message and going no
  further; when the lookup returns nothing, nothing is closed and the hook completes.
\<close>

lemma shutdown_close_contained:
  "fst (onApplicationShutdown options (Inr container) close w) = Inr ()
   \<and> close_calls (snd (onApplicationShutdown options (Inr (Some ds)) close w))
       = close_calls w @ (if truthy (keepDataSourceAlive options) then [] else [ds])
   \<and> logged (snd (onApplicationShutdown options (Inr (Some ds)) close w))
       = logged w @
         (if truthy (keepDataSourceAlive options) then []
          else case close ds of Inl e \<Rightarrow> [ErrorMessage (message e)] | Inr _ \<Rightarrow> [])"
  by (auto simp: onApplicationShutdown_def Let_def split: option.splits sum.splits prod.splits)

text \<open>
  Claim C8.  The claim asks that the connection be closed whenever the keep-alive flag is
  not set and that shutdown always complete.  The container lookup stands before the
  \<^verbatim>\<open>try\<close>: with the flag not set and a lookup that throws, the hook ends with that error
  and \<^verbatim>\<open>close\<close> is never called.
\<close>

theorem shutdown_lookup_failure_propagates:
  "\<not> truthy (keepDataSourceAlive example_options)
   \<and> fst (onApplicationShutdown example_options (Inl (Err ''unknown element''))
          (failingClose (Err ''socket closed'')) initial_world)
       = Inl (Err ''unknown element'')
   \<and> close_calls (snd (onApplicationShutdown example_options (Inl (Err ''unknown element''))
          (failingClose (Err ''socket closed'')) initial_world)) = []
   \<and> logged (snd (onApplicationShutdown example_options (Inl (Err ''unknown element''))
          (failingClose (Err ''socket closed'')) initial_world)) = []"
  by (simp add: onApplicationShutdown_def example_options_def initial_world_def)

section \<open>Repository providers\<close>

text \<open>
  Claim C9, amended.  There is one provider for each entity descriptor, in order.  For a
  descriptor that is not a custom repository class the provider's factory takes the
  repository through \<^verbatim>\<open>getMongoRepository\<close> when the driver type of the connection is
  \<^verbatim>\<open>mongodb\<close> and through \<^verbatim>\<open>getRepository\<close> otherwise; for a custom repository class it
  takes it through \<^verbatim>\<open>getRepository\<close> whatever the driver type.
\<close>

theorem providers_lookup_path:
  assumes "i < length ents"
  shows "length (createTypeOrmProviders h (Some ents) dataSource) = length ents
       \<and> useFactory (createTypeOrmProviders h (Some ents) dataSource ! i) ds
           = (if isCustomRepository (ents ! i) then GetRepository ds (ents ! i)
              else if ds_type ds = ''mongodb'' then GetMongoRepository ds (ents ! i)
              else GetRepository ds (ents ! i))"
  using assms by (simp add: createTypeOrmProviders_def isCustomRepository_def)

text \<open>An entity class on a document store and on a relational one.\<close>

theorem providers_lookup_path_witness:
  "useFactory (createTypeOrmProviders example_helpers
      (Some [EntityClass ''User'', RepositoryClass ''UserRepository'']) None ! 0) example_mongo
     = GetMongoRepository example_mongo (EntityClass ''User'')
   \<and> useFactory (createTypeOrmProviders example_helpers
      (Some [EntityClass ''User'', RepositoryClass ''UserRepository'']) None ! 0)
        example_data_source
     = GetRepository example_data_source (EntityClass ''User'')"
  using providers_lookup_path [of 0 "[EntityClass ''User'', RepositoryClass ''UserRepository'']"
      example_helpers None example_mongo]
    providers_lookup_path [of 0 "[EntityClass ''User'', RepositoryClass ''UserRepository'']"
      example_helpers None example_data_source]
  by (simp add: isCustomRepository_def example_mongo_def example_data_source_def)

text \<open>
  Claim C9 as stated covers every descriptor.  For a custom repository class on a
  \<^verbatim>\<open>mongodb\<close> connection the provider's factory uses \<^verbatim>\<open>getRepository\<close>, not the
  document-style lookup.
\<close>

theorem custom_repository_mongodb_counterexample:
  "ds_type example_mongo = ''mongodb''
   \<and> useFactory (createTypeOrmProviders example_helpers
         (Some [RepositoryClass ''UserRepository'']) None ! 0) example_mongo
       = GetRepository example_mongo (RepositoryClass ''UserRepository'')
   \<and> useFactory (createTypeOrmProviders example_helpers
         (Some [RepositoryClass ''UserRepository'']) None ! 0) example_mongo
       \<noteq> GetMongoRepository example_mongo (RepositoryClass ''UserRepository'')"
  by (simp add: createTypeOrmProviders_def example_mongo_def)

section \<open>Feature registration\<close>

lemma distinct_removeDuplicates: "distinct (removeDuplicates xs)"
  by (simp add: removeDuplicates_def)

lemma foldl_pushUnique_append:
  "foldl pushUnique collection es
     = collection @ filter (\<lambda>e. e \<notin> set collection) (removeDuplicates es)"
proof (induction es rule: rev_induct)
  case Nil
  then show ?case by (simp add: removeDuplicates_def)
next
  case (snoc e es)
  then show ?case
    by (auto simp: removeDuplicates_snoc pushUnique_def set_removeDuplicates)
qed

lemma forFeature_lookup:
  "getEntitiesByDataSource (snd (forFeature ser h st entsArg refArg))
      (resolveKey ser (withDefault (RefString DEFAULT_DATA_SOURCE_NAME) refArg))
     = foldl pushUnique
         (getEntitiesByDataSource st
            (resolveKey ser (withDefault (RefString DEFAULT_DATA_SOURCE_NAME) refArg)))
         (withDefault [] entsArg @ getCustomRepositoryEntity h (withDefault [] entsArg))"
  by (simp add: forFeature_def Let_def getEntities_add_same)

lemma forFeature_lookup_other:
  "resolveKey ser (withDefault (RefString DEFAULT_DATA_SOURCE_NAME) refArg) \<noteq> key' \<Longrightarrow>
   getEntitiesByDataSource (snd (forFeature ser h st entsArg refArg)) key'
     = getEntitiesByDataSource st key'"
  by (simp add: forFeature_def Let_def getEntities_add_other)

lemma length_new_entries:
  assumes "distinct ents" "t \<in> set extra" "t \<notin> set ents"
    and "set ents \<inter> set prior = {}" "t \<notin> set prior"
  shows "length ents
       < length (filter (\<lambda>e. e \<notin> set prior) (removeDuplicates (ents @ extra)))"
proof -
  let ?new = "filter (\<lambda>e. e \<notin> set prior) (removeDuplicates (ents @ extra))"
  have d: "distinct ?new" by (simp add: distinct_removeDuplicates)
  have "insert t (set ents) \<subseteq> set ?new"
    using assms by (auto simp: set_removeDuplicates)
  then have "card (insert t (set ents)) \<le> card (set ?new)"
    by (intro card_mono) auto
  moreover have "card (insert t (set ents)) = Suc (length ents)"
    using assms by (simp add: distinct_card)
  moreover have "card (set ?new) = length ?new"
    using d by (rule distinct_card)
  ultimately show ?thesis by simp
qed

text \<open>
  Claim C10.  A feature registration, made on any registry, leaves under the resolved key
  the collection held before followed by the caller's descriptors and, after them, the
  entity classes the helper derives from the custom repository classes among them, each
  descriptor not yet present being appended once; the collections under other keys stay as
  they were.  When the caller's descriptors are distinct and new to the collection and the
  helper derives an entity class that is neither among them nor in the collection, the
  registration adds strictly more entries than the caller's list has.
\<close>

theorem forFeature_registers_custom_repository_entities:
  "getEntitiesByDataSource (snd (forFeature ser h st entsArg refArg))
      (resolveKey ser (withDefault (RefString DEFAULT_DATA_SOURCE_NAME) refArg))
     = getEntitiesByDataSource st
         (resolveKey ser (withDefault (RefString DEFAULT_DATA_SOURCE_NAME) refArg))
       @ filter (\<lambda>e. e \<notin> set (getEntitiesByDataSource st
                   (resolveKey ser (withDefault (RefString DEFAULT_DATA_SOURCE_NAME) refArg))))
           (removeDuplicates
              (withDefault [] entsArg @ getCustomRepositoryEntity h (withDefault [] entsArg)))
   \<and> (resolveKey ser (withDefault (RefString DEFAULT_DATA_SOURCE_NAME) refArg) \<noteq> key'
      \<longrightarrow> getEntitiesByDataSource (snd (forFeature ser h st entsArg refArg)) key'
            = getEntitiesByDataSource st key')
   \<and> (distinct ents \<and> t \<in> set (getCustomRepositoryEntity h ents) \<and> t \<notin> set ents
        \<and> set ents \<inter> set (getEntitiesByDataSource st
              (resolveKey ser (withDefault (RefString DEFAULT_DATA_SOURCE_NAME) refArg))) = {}
        \<and> t \<notin> set (getEntitiesByDataSource st
              (resolveKey ser (withDefault (RefString DEFAULT_DATA_SOURCE_NAME) refArg)))
      \<longrightarrow> length (getEntitiesByDataSource st
              (resolveKey ser (withDefault (RefString DEFAULT_DATA_SOURCE_NAME) refArg)))
            + length ents
          < length (getEntitiesByDataSource (snd (forFeature ser h st (Some ents) refArg))
              (resolveKey ser (withDefault (RefString DEFAULT_DATA_SOURCE_NAME) refArg))))"
proof (intro conjI impI)
  let ?key = "resolveKey ser (withDefault (RefString DEFAULT_DATA_SOURCE_NAME) refArg)"
  let ?prior = "getEntitiesByDataSource st ?key"
  have general: "\<And>a. getEntitiesByDataSource (snd (forFeature ser h st a refArg)) ?key
      = ?prior @ filter (\<lambda>e. e \<notin> set ?prior)
          (removeDuplicates (withDefault [] a @ getCustomRepositoryEntity h (withDefault [] a)))"
    by (simp only: forFeature_lookup foldl_pushUnique_append)
  show "getEntitiesByDataSource (snd (forFeature ser h st entsArg refArg)) ?key
      = ?prior @ filter (\<lambda>e. e \<notin> set ?prior)
          (removeDuplicates
             (withDefault [] entsArg @ getCustomRepositoryEntity h (withDefault [] entsArg)))"
    by (rule general)
  show "getEntitiesByDataSource (snd (forFeature ser h st entsArg refArg)) key'
      = getEntitiesByDataSource st key'" if "?key \<noteq> key'"
    using that by (rule forFeature_lookup_other)
  show "length ?prior + length ents
      < length (getEntitiesByDataSource (snd (forFeature ser h st (Some ents) refArg)) ?key)"
    if "distinct ents \<and> t \<in> set (getCustomRepositoryEntity h ents) \<and> t \<notin> set ents
        \<and> set ents \<inter> set ?prior = {} \<and> t \<notin> set ?prior"
  proof -
    have "length ents < length (filter (\<lambda>e. e \<notin> set ?prior)
            (removeDuplicates (ents @ getCustomRepositoryEntity h ents)))"
      using that by (intro length_new_entries [of ents t]) blast+
    then show ?thesis using general [of "Some ents"] by simp
  qed
qed

text \<open>
  On a registry that holds \<open>Y\<close> and \<open>Z\<close> under \<^verbatim>\<open>"default"\<close>, registering a custom
  repository class alone adds the class and, after it, its entity class.
\<close>

theorem forFeature_registers_custom_repository_entities_witness:
  "getEntitiesByDataSource
     (snd (forFeature (serialise example_env) example_helpers (storage example_env)
        (Some [RepositoryClass ''UserRepository'']) None)) ''default''
   = [EntityClass ''Y'', EntityClass ''Z'', RepositoryClass ''UserRepository'',
      EntityClass ''User'']
   \<and> length (getEntitiesByDataSource (storage example_env) ''default'')
       + length [RepositoryClass ''UserRepository'']
     < length (getEntitiesByDataSource
         (snd (forFeature (serialise example_env) example_helpers (storage example_env)
            (Some [RepositoryClass ''UserRepository'']) None)) ''default'')"
proof -
  have prior: "getEntitiesByDataSource (storage example_env) ''default''
      = [EntityClass ''Y'', EntityClass ''Z'']"
    by (simp add: example_env_def getEntitiesByDataSource_def)
  have derived: "getCustomRepositoryEntity example_helpers [RepositoryClass ''UserRepository'']
      = [EntityClass ''User'']"
    by (simp add: example_helpers_def userRepositoryEntity_def)
  show ?thesis
    using forFeature_registers_custom_repository_entities
      [of "serialise example_env" example_helpers "storage example_env"
          "Some [RepositoryClass ''UserRepository'']" None "''other''"
          "[RepositoryClass ''UserRepository'']" "EntityClass ''User''"]
    by (simp add: DEFAULT_DATA_SOURCE_NAME_def prior derived removeDuplicates_def)
qed

end
